theory Spec2Isabelle
  imports Main
begin

section \<open>Strings\<close>

text \<open>
  Python's \<open>str.lower\<close>, on the ASCII letters; every other character is left as it is.
\<close>

definition lower_char :: "char \<Rightarrow> char" where
  "lower_char c =
     (case map_of (zip ''ABCDEFGHIJKLMNOPQRSTUVWXYZ'' ''abcdefghijklmnopqrstuvwxyz'') c of
        Some d \<Rightarrow> d
      | None \<Rightarrow> c)"

definition lower :: "string \<Rightarrow> string" where
  "lower s = map lower_char s"

text \<open>\<open>s.startswith(p)\<close>.\<close>

definition startswith :: "string \<Rightarrow> string \<Rightarrow> bool" where
  "startswith s p = (take (length p) s = p)"

text \<open>
  \<open>s.split(sep)\<close> with an explicit one-character separator: every occurrence of the
  separator ends a piece, so \<open>n\<close> separators give \<open>n + 1\<close> pieces, empty ones included.
\<close>

fun split :: "char \<Rightarrow> string \<Rightarrow> string list" where
  "split sep [] = [[]]"
| "split sep (c # cs) =
     (if c = sep then [] # split sep cs
      else (case split sep cs of
              [] \<Rightarrow> [[c]]
            | w # ws \<Rightarrow> (c # w) # ws))"

text \<open>
  An f-string hole \<open>{x}\<close> where \<open>x\<close> comes from \<open>os.getenv\<close>: the text of the value, and
  the four letters \<open>None\<close> when the variable is not set.
\<close>

definition fmt :: "string option \<Rightarrow> string" where
  "fmt v = (case v of None \<Rightarrow> ''None'' | Some s \<Rightarrow> s)"

section \<open>Values and exceptions\<close>

text \<open>A claim value of a decoded token, and the claim mapping \<open>Dict[str, Any]\<close>.\<close>

datatype claim_value = SVal string | NVal int | LVal "string list"

type_synonym claims = "string \<rightharpoonup> claim_value"

text \<open>The \<open>detail\<close> of an \<open>HTTPException\<close> is a string or a dictionary of such.\<close>

datatype json = JStr string | JObj "(string \<times> json) list"

text \<open>
  The exceptions the module raises, catches or lets through. The first four are the
  classes the \<open>except\<close> clauses of \<open>validate_token\<close> name, in their order:
  \<open>InvalidTokenError\<close> stands for every other subclass of \<open>jwt.InvalidTokenError\<close>
  (decode errors, bad signatures, refused algorithms, missing claims) and carries
  \<open>str(e)\<close>; \<open>OtherError\<close> stands for every exception outside that hierarchy that the
  library or the runtime raises (key-set client errors, network errors, attribute
  errors) and carries \<open>str(e)\<close> too.
\<close>

datatype py_exception =
    ExpiredSignatureError string
  | InvalidAudienceError string
  | InvalidIssuerError string
  | InvalidTokenError string
  | OtherError string
  | UnboundLocalError
  | IndexError
  | ValueError string
  | HTTPException nat json "(string \<times> string) list option"

section \<open>Configuration\<close>

text \<open>
  The module-level settings, read once from the process environment when the module is
  imported.
\<close>

record config =
  AZURE_TENANT_ID :: "string option"
  AZURE_CLIENT_ID :: "string option"
  TOKEN_AUDIENCE :: string
  TOKEN_ISSUER :: string
  ENABLE_AUTH :: bool

text \<open>\<open>os.getenv(name)\<close> and \<open>os.getenv(name, default)\<close>.\<close>

definition getenv :: "(string \<rightharpoonup> string) \<Rightarrow> string \<Rightarrow> string option" where
  "getenv env name = env name"

definition getenv_default :: "(string \<rightharpoonup> string) \<Rightarrow> string \<Rightarrow> string \<Rightarrow> string" where
  "getenv_default env name dflt = (case env name of None \<Rightarrow> dflt | Some v \<Rightarrow> v)"

definition load_config :: "(string \<rightharpoonup> string) \<Rightarrow> config" where
  "load_config env =
     (let tenant = getenv env ''AZURE_TENANT_ID'';
          client = getenv env ''AZURE_CLIENT_ID''
      in \<lparr> AZURE_TENANT_ID = tenant,
           AZURE_CLIENT_ID = client,
           TOKEN_AUDIENCE = getenv_default env ''TOKEN_AUDIENCE'' (''api://'' @ fmt client),
           TOKEN_ISSUER = getenv_default env ''TOKEN_ISSUER''
                            (''https://login.microsoftonline.com/'' @ fmt tenant @ ''/v2.0''),
           ENABLE_AUTH = (lower (getenv_default env ''ENABLE_AUTH'' ''true'') = ''true'') \<rparr>)"

section \<open>The token library\<close>

text \<open>
  \<open>jwt\<close> and \<open>PyJWKClient\<close> are third-party code, not part of the repository: the model
  takes the two entry points the module calls as parameters. A value of this record is
  the library together with the world it consults (the published key set, the clock) at
  the time of one request.

  \<^item> \<open>get_signing_key_from_jwt client token\<close> returns a key object or raises.
  \<^item> \<open>jwt_decode token key algorithms audience issuer options\<close> is \<open>jwt.decode\<close>; an
    argument the call leaves out is \<open>None\<close>, and \<open>options\<close> is the dictionary passed.
\<close>

datatype PyJWKClient = PyJWKClient (uri: string)

datatype PyJWK = PyJWK (key: string)

record jwt_library =
  get_signing_key_from_jwt :: "PyJWKClient \<Rightarrow> string \<Rightarrow> py_exception + PyJWK"
  jwt_decode :: "string \<Rightarrow> string option \<Rightarrow> string list option \<Rightarrow> string option
                   \<Rightarrow> string list option \<Rightarrow> (string \<rightharpoonup> bool) \<Rightarrow> py_exception + claims"

section \<open>EntraIDAuth\<close>

record EntraIDAuth =
  tenant_id :: "string option"
  client_id :: "string option"
  jwks_uri :: string
  jwks_client :: "PyJWKClient option"

text \<open>A value is truthy for \<open>all([...])\<close> when it is neither \<open>None\<close> nor the empty string.\<close>

definition truthy :: "string option \<Rightarrow> bool" where
  "truthy v = (case v of None \<Rightarrow> False | Some s \<Rightarrow> s \<noteq> [])"

definition validate_config :: "EntraIDAuth \<Rightarrow> py_exception + unit" where
  "validate_config self =
     (if \<not> (truthy (tenant_id self) \<and> truthy (client_id self))
      then Inl (ValueError (''Missing required Entra ID configuration. '' @
                  ''Please set AZURE_TENANT_ID, AZURE_CLIENT_ID in environment variables.''))
      else Inr ())"

definition EntraIDAuth_init :: "config \<Rightarrow> py_exception + EntraIDAuth" where
  "EntraIDAuth_init cfg =
     (let self = \<lparr> tenant_id = AZURE_TENANT_ID cfg,
                    client_id = AZURE_CLIENT_ID cfg,
                    jwks_uri = ''https://login.microsoftonline.com/'' @ fmt (AZURE_TENANT_ID cfg)
                                 @ ''/discovery/v2.0/keys'',
                    jwks_client = None \<rparr>
      in if ENABLE_AUTH cfg
         then (case validate_config self of
                 Inl e \<Rightarrow> Inl e
               | Inr _ \<Rightarrow> Inr (self\<lparr> jwks_client := Some (PyJWKClient (jwks_uri self)) \<rparr>))
         else Inr self)"

text \<open>
  What the validator asks of the library, in the order it asks: the log of one call of
  \<open>validate_token\<close>, and of the middleware around it.
\<close>

datatype event =
    ResolveKey string
  | DecodeUnverified string
  | DecodeVerified string
  | ValidateToken string

text \<open>The two option dictionaries \<open>validate_token\<close> passes to \<open>jwt.decode\<close>.\<close>

definition unverified_options :: "string \<rightharpoonup> bool" where
  "unverified_options = [''verify_signature'' \<mapsto> False]"

definition verified_options :: "string \<rightharpoonup> bool" where
  "verified_options = [''verify_signature'' \<mapsto> True, ''verify_exp'' \<mapsto> True,
                       ''verify_aud'' \<mapsto> True, ''verify_iss'' \<mapsto> True]"

text \<open>
  \<open>valid_issuers\<close> of \<open>validate_token\<close>: the v1.0 and the v2.0 issuer of the tenant.
\<close>

definition valid_issuers :: "EntraIDAuth \<Rightarrow> string list" where
  "valid_issuers self =
     [''https://sts.windows.net/'' @ fmt (tenant_id self) @ ''/'',
      ''https://login.microsoftonline.com/'' @ fmt (tenant_id self) @ ''/v2.0'']"

text \<open>
  The \<open>except\<close> clauses of \<open>validate_token\<close>, first match first. \<open>bound\<close> says whether
  the locals \<open>valid_issuers\<close> and \<open>actual_issuer\<close> were assigned before the exception:
  the issuer clause formats both into its log line before it raises, and reading an
  unassigned local raises \<open>UnboundLocalError\<close> out of the handler.
\<close>

definition on_exception :: "bool \<Rightarrow> py_exception \<Rightarrow> py_exception" where
  "on_exception bound e =
     (case e of
        ExpiredSignatureError _ \<Rightarrow> HTTPException 401 (JStr ''Token has expired'') None
      | InvalidAudienceError _ \<Rightarrow> HTTPException 401 (JStr ''Invalid token audience'') None
      | InvalidIssuerError _ \<Rightarrow>
          (if bound then HTTPException 401 (JStr ''Invalid token issuer'') None
           else UnboundLocalError)
      | InvalidTokenError msg \<Rightarrow> HTTPException 401 (JStr (''Invalid token: '' @ msg)) None
      | _ \<Rightarrow> HTTPException 401 (JStr ''Token validation failed'') None)"

text \<open>
  \<open>EntraIDAuth.validate_token\<close>. With authentication disabled \<open>jwks_client\<close> is
  \<open>None\<close>, the first statement raises \<open>AttributeError\<close> and the last clause catches it.
\<close>

definition validate_token ::
  "jwt_library \<Rightarrow> config \<Rightarrow> EntraIDAuth \<Rightarrow> string \<Rightarrow> event list \<times> (py_exception + claims)" where
  "validate_token lib cfg self token =
     (case jwks_client self of
        None \<Rightarrow> ([], Inl (on_exception False (OtherError
                  (''NoneType object has no attribute get_signing_key_from_jwt''))))
      | Some client \<Rightarrow>
          (case get_signing_key_from_jwt lib client token of
             Inl e \<Rightarrow> ([ResolveKey token], Inl (on_exception False e))
           | Inr signing_key \<Rightarrow>
               (case jwt_decode lib token None None None None unverified_options of
                  Inl e \<Rightarrow> ([ResolveKey token, DecodeUnverified token],
                            Inl (on_exception False e))
                | Inr unverified_token \<Rightarrow>
                    (case jwt_decode lib token (Some (key signing_key)) (Some [''RS256''])
                            (Some (TOKEN_AUDIENCE cfg)) (Some (valid_issuers self))
                            verified_options of
                       Inl e \<Rightarrow> ([ResolveKey token, DecodeUnverified token,
                                  DecodeVerified token], Inl (on_exception True e))
                     | Inr decoded_token \<Rightarrow>
                         ([ResolveKey token, DecodeUnverified token, DecodeVerified token],
                          Inr decoded_token)))))"

section \<open>AuthMiddleware\<close>

text \<open>
  What the middleware reads of a request: the path of its URL, its headers and its
  state object. The server hands header names over in lower case and
  \<open>request.headers.get\<close> lowers the name it is asked for; \<open>state\<close> starts without
  any attribute, so \<open>user\<close> is \<open>None\<close> until somebody sets it.
\<close>

record State =
  user :: "claims option"

record request =
  url_path :: string
  headers :: "(string \<times> string) list"
  state :: State

definition headers_get :: "(string \<times> string) list \<Rightarrow> string \<Rightarrow> string option" where
  "headers_get hs name = map_of hs (lower name)"

record AuthMiddleware =
  excluded_paths :: "string list"

text \<open>\<open>excluded_paths or [...]\<close>: \<open>None\<close> and the empty list both give the default.\<close>

definition AuthMiddleware_init :: "string list option \<Rightarrow> AuthMiddleware" where
  "AuthMiddleware_init excluded =
     \<lparr> excluded_paths =
         (case excluded of
            None \<Rightarrow> [''/docs'', ''/redoc'', ''/openapi.json'', ''/health'']
          | Some [] \<Rightarrow> [''/docs'', ''/redoc'', ''/openapi.json'', ''/health'']
          | Some ps \<Rightarrow> ps) \<rparr>"

text \<open>The exception raised for a missing or non-bearer \<open>Authorization\<close> header.\<close>

definition unauthorized :: "config \<Rightarrow> py_exception" where
  "unauthorized cfg =
     HTTPException 401
       (JObj [(''error'', JStr ''unauthorized''),
              (''message'', JStr ''Missing or invalid authorization header''),
              (''instructions'', JObj
                 [(''how_to_get_token'', JStr
                     ''Use client credentials flow to acquire a token from Microsoft Entra ID''),
                  (''token_endpoint'', JStr (''https://login.microsoftonline.com/''
                     @ fmt (AZURE_TENANT_ID cfg) @ ''/oauth2/v2.0/token'')),
                  (''required_scopes'', JStr (''api://'' @ fmt (AZURE_CLIENT_ID cfg)
                     @ ''/user_read'')),
                  (''usage'', JStr (''Include the token in the Authorization header as: ''
                     @ ''Bearer <your_access_token>''))])])
       (Some [(''WWW-Authenticate'', ''Bearer'')])"

text \<open>
  \<open>AuthMiddleware.__call__\<close>. The result is the log of what was asked of the validator
  and the library, and either the exception raised or the response of \<open>call_next\<close> on
  the request as forwarded. \<open>auth_header.split(" ")[1]\<close> stands outside the \<open>try\<close>, so
  an index out of range would leave the middleware as \<open>IndexError\<close>.
\<close>

definition call ::
  "jwt_library \<Rightarrow> config \<Rightarrow> EntraIDAuth \<Rightarrow> AuthMiddleware \<Rightarrow> request \<Rightarrow> (request \<Rightarrow> 'r)
     \<Rightarrow> event list \<times> (py_exception + 'r)" where
  "call lib cfg auth_handler self request call_next =
     (if list_ex (\<lambda>p. startswith (url_path request) p) (excluded_paths self)
      then ([], Inr (call_next request))
      else if \<not> ENABLE_AUTH cfg
      then ([], Inr (call_next request))
      else (case headers_get (headers request) ''Authorization'' of
              None \<Rightarrow> ([], Inl (unauthorized cfg))
            | Some auth_header \<Rightarrow>
                (if auth_header = [] \<or> \<not> startswith auth_header ''Bearer ''
                 then ([], Inl (unauthorized cfg))
                 else (case split (CHR '' '') auth_header of
                         _ # token # _ \<Rightarrow>
                           (case validate_token lib cfg auth_handler token of
                              (log, Inr decoded_token) \<Rightarrow>
                                (ValidateToken token # log,
                                 Inr (call_next
                                   (request\<lparr> state := (state request)\<lparr> user := Some decoded_token \<rparr> \<rparr>)))
                            | (log, Inl e) \<Rightarrow>
                                (ValidateToken token # log,
                                 Inl (case e of
                                        HTTPException _ _ _ \<Rightarrow> e
                                      | _ \<Rightarrow> HTTPException 401 (JStr ''Authentication failed'') None)))
                       | _ \<Rightarrow> ([], Inl IndexError)))))"

section \<open>get\_current\_user\<close>

definition get_current_user :: "config \<Rightarrow> request \<Rightarrow> py_exception + claims" where
  "get_current_user cfg request =
     (if \<not> ENABLE_AUTH cfg
      then Inr [''sub'' \<mapsto> SVal ''development-user'', ''name'' \<mapsto> SVal ''Development User'']
      else (case user (state request) of
              None \<Rightarrow> Inl (HTTPException 401 (JStr ''User not authenticated'') None)
            | Some claims \<Rightarrow> Inr claims))"

section \<open>What the module relies on in the library\<close>


definition issuer_checked_by_membership :: "jwt_library \<Rightarrow> bool" where
  "issuer_checked_by_membership lib \<longleftrightarrow>
     (\<forall>token k algs aud accepted opts c i.
        jwt_decode lib token k algs aud (Some accepted) (opts(''verify_iss'' \<mapsto> False)) = Inr c
          \<and> c ''iss'' = Some (SVal i) \<and> i \<in> set accepted
        \<longrightarrow> jwt_decode lib token k algs aud (Some accepted) (opts(''verify_iss'' \<mapsto> True)) = Inr c)"

section \<open>The order of the specification\<close>


section \<open>A library instance to run the module on\<close>

text \<open>
  A small table-driven instance of the library parameter: an identity provider that
  has issued some tokens, publishes some keys and keeps a clock. It follows the
  library's documented behaviour in the large: a token with fewer than three segments
  does not load, key resolution loads the token and looks its key id up, and a decode
  checks algorithm and signature first, then expiry, issuer and audience, each only
  when its option is on (the claim checks default to the value of \<open>verify_signature\<close>).
\<close>

record jws =
  kid :: string
  alg :: string
  payload :: claims
  signed_with :: string

record identity_provider =
  issued :: "(string \<times> jws) list"
  published_keys :: "(string \<times> string) list"
  clock :: int

definition option_set :: "(string \<rightharpoonup> bool) \<Rightarrow> string \<Rightarrow> bool \<Rightarrow> bool" where
  "option_set opts name dflt = (case opts name of None \<Rightarrow> dflt | Some b \<Rightarrow> b)"

definition load_jws :: "identity_provider \<Rightarrow> string \<Rightarrow> py_exception + jws" where
  "load_jws idp token =
     (if length (split (CHR ''.'') token) < 3
      then Inl (InvalidTokenError ''Not enough segments'')
      else (case map_of (issued idp) token of
              None \<Rightarrow> Inl (InvalidTokenError ''Invalid header padding'')
            | Some j \<Rightarrow> Inr j))"

definition is_expired :: "int \<Rightarrow> claim_value option \<Rightarrow> bool" where
  "is_expired now exp = (case exp of Some (NVal e) \<Rightarrow> e \<le> now | _ \<Rightarrow> False)"

definition issuer_rejected :: "string list option \<Rightarrow> claim_value option \<Rightarrow> bool" where
  "issuer_rejected issuer iss =
     (case issuer of
        None \<Rightarrow> False
      | Some accepted \<Rightarrow> (case iss of Some (SVal i) \<Rightarrow> i \<notin> set accepted | _ \<Rightarrow> True))"

definition audience_rejected :: "string option \<Rightarrow> claim_value option \<Rightarrow> bool" where
  "audience_rejected audience aud =
     (case audience of
        None \<Rightarrow> aud \<noteq> None
      | Some a \<Rightarrow> (case aud of
                     Some (SVal x) \<Rightarrow> x \<noteq> a
                   | Some (LVal xs) \<Rightarrow> a \<notin> set xs
                   | _ \<Rightarrow> True))"

definition idp_get_signing_key ::
  "identity_provider \<Rightarrow> PyJWKClient \<Rightarrow> string \<Rightarrow> py_exception + PyJWK" where
  "idp_get_signing_key idp client token =
     (case load_jws idp token of
        Inl e \<Rightarrow> Inl e
      | Inr j \<Rightarrow> (case map_of (published_keys idp) (kid j) of
                    None \<Rightarrow> Inl (OtherError ''Unable to find a signing key that matches'')
                  | Some k \<Rightarrow> Inr (PyJWK k)))"

definition idp_decode ::
  "identity_provider \<Rightarrow> string \<Rightarrow> string option \<Rightarrow> string list option \<Rightarrow> string option
     \<Rightarrow> string list option \<Rightarrow> (string \<rightharpoonup> bool) \<Rightarrow> py_exception + claims" where
  "idp_decode idp token k algorithms audience issuer options =
     (case load_jws idp token of
        Inl e \<Rightarrow> Inl e
      | Inr j \<Rightarrow>
          (let vs = option_set options ''verify_signature'' True
           in if vs \<and> (case algorithms of None \<Rightarrow> True | Some algs \<Rightarrow> alg j \<notin> set algs)
              then Inl (InvalidTokenError ''The specified alg value is not allowed'')
              else if vs \<and> k \<noteq> Some (signed_with j)
              then Inl (InvalidTokenError ''Signature verification failed'')
              else if option_set options ''verify_exp'' vs \<and> is_expired (clock idp) (payload j ''exp'')
              then Inl (ExpiredSignatureError ''Signature has expired'')
              else if option_set options ''verify_iss'' vs \<and> issuer_rejected issuer (payload j ''iss'')
              then Inl (InvalidIssuerError ''Invalid issuer'')
              else if option_set options ''verify_aud'' vs
                        \<and> audience_rejected audience (payload j ''aud'')
              then Inl (InvalidAudienceError ''Invalid audience'')
              else Inr (payload j)))"

definition library_of :: "identity_provider \<Rightarrow> jwt_library" where
  "library_of idp =
     \<lparr> get_signing_key_from_jwt = idp_get_signing_key idp, jwt_decode = idp_decode idp \<rparr>"

text \<open>
  The tenant \<open>contoso\<close> with the application \<open>app1\<close>, at time 1000, with one published
  key. Six tokens: a good one of each issuer form, three that expired at 500 (one
  signed with an unpublished key, one with a forged signature, one well signed), and a
  good one of a foreign issuer.
\<close>

definition token_claims :: "string \<Rightarrow> int \<Rightarrow> claims" where
  "token_claims iss exp =
     [''iss'' \<mapsto> SVal iss, ''aud'' \<mapsto> SVal ''api://app1'', ''exp'' \<mapsto> NVal exp,
      ''sub'' \<mapsto> SVal ''alice'']"

definition contoso :: identity_provider where
  "contoso =
     \<lparr> issued =
         [(''v1.good.sig'', \<lparr> kid = ''k1'', alg = ''RS256'',
             payload = token_claims ''https://sts.windows.net/contoso/'' 2000,
             signed_with = ''key1'' \<rparr>),
          (''v2.good.sig'', \<lparr> kid = ''k1'', alg = ''RS256'',
             payload = token_claims ''https://login.microsoftonline.com/contoso/v2.0'' 2000,
             signed_with = ''key1'' \<rparr>),
          (''old.nokey.sig'', \<lparr> kid = ''k9'', alg = ''RS256'',
             payload = token_claims ''https://login.microsoftonline.com/contoso/v2.0'' 500,
             signed_with = ''key9'' \<rparr>),
          (''old.forged.sig'', \<lparr> kid = ''k1'', alg = ''RS256'',
             payload = token_claims ''https://login.microsoftonline.com/contoso/v2.0'' 500,
             signed_with = ''forged'' \<rparr>),
          (''old.good.sig'', \<lparr> kid = ''k1'', alg = ''RS256'',
             payload = token_claims ''https://login.microsoftonline.com/contoso/v2.0'' 500,
             signed_with = ''key1'' \<rparr>),
          (''other.good.sig'', \<lparr> kid = ''k1'', alg = ''RS256'',
             payload = token_claims ''https://issuer.example/'' 2000,
             signed_with = ''key1'' \<rparr>)],
       published_keys = [(''k1'', ''key1'')],
       clock = 1000 \<rparr>"

definition contoso_env :: "string \<rightharpoonup> string" where
  "contoso_env = [''AZURE_TENANT_ID'' \<mapsto> ''contoso'', ''AZURE_CLIENT_ID'' \<mapsto> ''app1'']"

definition contoso_auth :: EntraIDAuth where
  "contoso_auth =
     \<lparr> tenant_id = Some ''contoso'', client_id = Some ''app1'',
       jwks_uri = ''https://login.microsoftonline.com/contoso/discovery/v2.0/keys'',
       jwks_client = Some (PyJWKClient
         ''https://login.microsoftonline.com/contoso/discovery/v2.0/keys'') \<rparr>"

definition contoso_config :: config where
  "contoso_config = load_config contoso_env"

text \<open>
  The middleware as \<open>main.py\<close> constructs it, and the settings of the same tenant with
  authentication switched off, with the handler those settings construct.
\<close>

definition main_middleware :: AuthMiddleware where
  "main_middleware = AuthMiddleware_init (Some [''/health'', ''/docs''])"

definition disabled_config :: config where
  "disabled_config = load_config (contoso_env(''ENABLE_AUTH'' \<mapsto> ''False''))"

definition disabled_auth :: EntraIDAuth where
  "disabled_auth =
     \<lparr> tenant_id = Some ''contoso'', client_id = Some ''app1'',
       jwks_uri = ''https://login.microsoftonline.com/contoso/discovery/v2.0/keys'',
       jwks_client = None \<rparr>"

section \<open>Derived notions\<close>



text \<open>Whether a path is on the allow-list of the middleware.\<close>

definition excluded :: "AuthMiddleware \<Rightarrow> request \<Rightarrow> bool" where
  "excluded self request \<longleftrightarrow> (\<exists>p \<in> set (excluded_paths self). startswith (url_path request) p)"

section \<open>Auxiliary facts\<close>

subsection \<open>Strings and the example configuration\<close>

lemma contoso_config_eq:
  "contoso_config = \<lparr> AZURE_TENANT_ID = Some ''contoso'', AZURE_CLIENT_ID = Some ''app1'',
     TOKEN_AUDIENCE = ''api://app1'',
     TOKEN_ISSUER = ''https://login.microsoftonline.com/contoso/v2.0'', ENABLE_AUTH = True \<rparr>"
  by (simp add: contoso_config_def load_config_def contoso_env_def getenv_def getenv_default_def
      fmt_def lower_def lower_char_def)

lemma contoso_init: "EntraIDAuth_init contoso_config = Inr contoso_auth"
  by (simp add: contoso_config_eq EntraIDAuth_init_def validate_config_def truthy_def fmt_def
      contoso_auth_def)

lemma split_hd: "\<exists>rest. split sep s = takeWhile (\<lambda>c. c \<noteq> sep) s # rest"
  by (induction s) auto

lemma startswith_append: "startswith s p \<Longrightarrow> s = p @ drop (length p) s"
  unfolding startswith_def by (metis append_take_drop_id)

lemma split_bearer: "split (CHR '' '') (''Bearer '' @ r) = ''Bearer'' # split (CHR '' '') r"
  by simp

lemma split_bearer_token:
  assumes "startswith h ''Bearer ''"
  shows "\<exists>rest. split (CHR '' '') h = ''Bearer'' # takeWhile (\<lambda>c. c \<noteq> CHR '' '') (drop 7 h) # rest"
proof -
  have len: "length ''Bearer '' = 7" by simp
  have "h = ''Bearer '' @ drop 7 h"
    using startswith_append [OF assms] unfolding len .
  then have "split (CHR '' '') h = split (CHR '' '') (''Bearer '' @ drop 7 h)"
    by simp
  then have "split (CHR '' '') h = ''Bearer'' # split (CHR '' '') (drop 7 h)"
    by (simp only: split_bearer)
  then show ?thesis using split_hd [of "CHR '' ''" "drop 7 h"] by auto
qed


lemma library_of_membership: "issuer_checked_by_membership (library_of idp)"
  unfolding issuer_checked_by_membership_def library_of_def
  by (auto simp: idp_decode_def option_set_def issuer_rejected_def Let_def
      split: sum.splits if_splits)

subsection \<open>The library instance on its tokens\<close>

lemma contoso_load:
  "load_jws contoso ''v1.good.sig'' = Inr \<lparr> kid = ''k1'', alg = ''RS256'',
      payload = token_claims ''https://sts.windows.net/contoso/'' 2000, signed_with = ''key1'' \<rparr>"
  "load_jws contoso ''v2.good.sig'' = Inr \<lparr> kid = ''k1'', alg = ''RS256'',
      payload = token_claims ''https://login.microsoftonline.com/contoso/v2.0'' 2000, signed_with = ''key1'' \<rparr>"
  "load_jws contoso ''old.nokey.sig'' = Inr \<lparr> kid = ''k9'', alg = ''RS256'',
      payload = token_claims ''https://login.microsoftonline.com/contoso/v2.0'' 500, signed_with = ''key9'' \<rparr>"
  "load_jws contoso ''old.forged.sig'' = Inr \<lparr> kid = ''k1'', alg = ''RS256'',
      payload = token_claims ''https://login.microsoftonline.com/contoso/v2.0'' 500, signed_with = ''forged'' \<rparr>"
  "load_jws contoso ''old.good.sig'' = Inr \<lparr> kid = ''k1'', alg = ''RS256'',
      payload = token_claims ''https://login.microsoftonline.com/contoso/v2.0'' 500, signed_with = ''key1'' \<rparr>"
  "load_jws contoso ''other.good.sig'' = Inr \<lparr> kid = ''k1'', alg = ''RS256'',
      payload = token_claims ''https://issuer.example/'' 2000, signed_with = ''key1'' \<rparr>"
  "load_jws contoso '''' = Inl (InvalidTokenError ''Not enough segments'')"
  by (simp_all add: load_jws_def contoso_def)

lemma contoso_published: "published_keys contoso = [(''k1'', ''key1'')]" "clock contoso = 1000"
  by (simp_all add: contoso_def)

lemma token_claims_at:
  "token_claims i e ''iss'' = Some (SVal i)"
  "token_claims i e ''aud'' = Some (SVal ''api://app1'')"
  "token_claims i e ''exp'' = Some (NVal e)"
  "token_claims i e ''sub'' = Some (SVal ''alice'')"
  by (simp_all add: token_claims_def)

lemma contoso_auth_fields:
  "jwks_client contoso_auth = Some (PyJWKClient ''https://login.microsoftonline.com/contoso/discovery/v2.0/keys'')"
  "tenant_id contoso_auth = Some ''contoso''"
  "valid_issuers contoso_auth = [''https://sts.windows.net/contoso/'', ''https://login.microsoftonline.com/contoso/v2.0'']"
  by (simp_all add: contoso_auth_def valid_issuers_def fmt_def)

lemmas contoso_run = validate_token_def library_of_def idp_get_signing_key_def idp_decode_def
  contoso_load contoso_published token_claims_at contoso_auth_fields on_exception_def
  unverified_options_def verified_options_def option_set_def is_expired_def issuer_rejected_def
  audience_rejected_def

lemma contoso_v1:
  "validate_token (library_of contoso) contoso_config contoso_auth ''v1.good.sig'' =
     ([ResolveKey ''v1.good.sig'', DecodeUnverified ''v1.good.sig'', DecodeVerified ''v1.good.sig''],
      Inr (token_claims ''https://sts.windows.net/contoso/'' 2000))"
  by (simp add: contoso_run contoso_config_eq)

lemma contoso_empty:
  "validate_token (library_of contoso) contoso_config contoso_auth '''' =
     ([ResolveKey ''''], Inl (HTTPException 401 (JStr ''Invalid token: Not enough segments'') None))"
  by (simp add: contoso_run contoso_config_eq)



lemma contoso_old_good:
  "validate_token (library_of contoso) contoso_config contoso_auth ''old.good.sig'' =
     ([ResolveKey ''old.good.sig'', DecodeUnverified ''old.good.sig'', DecodeVerified ''old.good.sig''],
      Inl (HTTPException 401 (JStr ''Token has expired'') None))"
  by (simp add: contoso_run contoso_config_eq)

section \<open>The token validator\<close>





lemma contoso_config_fields:
  "TOKEN_AUDIENCE contoso_config = ''api://app1''" "ENABLE_AUTH contoso_config"
  "AZURE_TENANT_ID contoso_config = Some ''contoso''" "AZURE_CLIENT_ID contoso_config = Some ''app1''"
  by (simp_all add: contoso_config_eq)




text \<open>The settings other than \<open>TOKEN_ISSUER\<close> do not depend on that variable, and neither the handler nor the validator reads it.\<close>

lemma load_config_token_issuer:
  "load_config (env(''TOKEN_ISSUER'' := v))
     = (load_config env)\<lparr> TOKEN_ISSUER := TOKEN_ISSUER (load_config (env(''TOKEN_ISSUER'' := v))) \<rparr>"
  by (simp add: load_config_def getenv_def getenv_default_def Let_def)

lemma EntraIDAuth_init_token_issuer: "EntraIDAuth_init (cfg\<lparr> TOKEN_ISSUER := x \<rparr>) = EntraIDAuth_init cfg"
  by (simp add: EntraIDAuth_init_def)

lemma validate_token_token_issuer:
  "validate_token lib (cfg\<lparr> TOKEN_ISSUER := x \<rparr>) self token = validate_token lib cfg self token"
  by (simp add: validate_token_def cong: option.case_cong sum.case_cong)

lemma EntraIDAuth_init_tenant:
  "EntraIDAuth_init cfg = Inr self \<Longrightarrow> tenant_id self = AZURE_TENANT_ID cfg"
  by (auto simp: EntraIDAuth_init_def Let_def split: if_splits sum.splits)

lemma validate_token_Inr:
  assumes "snd (validate_token lib cfg self token) = Inr c"
  shows "\<exists>client sk u. jwks_client self = Some client \<and>
           get_signing_key_from_jwt lib client token = Inr sk \<and>
           jwt_decode lib token None None None None unverified_options = Inr u \<and>
           jwt_decode lib token (Some (key sk)) (Some [''RS256'']) (Some (TOKEN_AUDIENCE cfg))
             (Some (valid_issuers self)) verified_options = Inr c"
  using assms by (auto simp: validate_token_def split: option.splits sum.splits)

text \<open>
  Claim C3, as the code has it. The issuers handed to the verifying decode are always
  the two forms built from the tenant id that was read at startup. \<open>TOKEN_ISSUER\<close>
  is read at startup too, but nothing consults it: two environments that differ in that
  variable alone (set, set to something else, or not set) construct the same handler and
  give the same result for every token, and whenever a token is accepted the library
  accepted it against the two tenant forms.
\<close>

theorem issuers_fixed_by_tenant:
  assumes "EntraIDAuth_init (load_config env) = Inr self"
  shows "EntraIDAuth_init (load_config (env(''TOKEN_ISSUER'' := v))) = Inr self \<and>
         validate_token lib (load_config (env(''TOKEN_ISSUER'' := v))) self token
           = validate_token lib (load_config env) self token \<and>
         (\<forall>c. snd (validate_token lib (load_config env) self token) = Inr c \<longrightarrow>
            (\<exists>sk. jwt_decode lib token (Some (key sk)) (Some [''RS256''])
                    (Some (TOKEN_AUDIENCE (load_config env)))
                    (Some [''https://sts.windows.net/'' @ fmt (env ''AZURE_TENANT_ID'') @ ''/'',
                           ''https://login.microsoftonline.com/'' @ fmt (env ''AZURE_TENANT_ID'')
                             @ ''/v2.0''])
                    verified_options = Inr c))"
proof -
  let ?env' = "env(''TOKEN_ISSUER'' := v)"
  have eq: "load_config ?env' = (load_config env)\<lparr> TOKEN_ISSUER := TOKEN_ISSUER (load_config ?env') \<rparr>"
    by (rule load_config_token_issuer)
  have 1: "EntraIDAuth_init (load_config ?env') = Inr self"
    using assms EntraIDAuth_init_token_issuer [where cfg = "load_config env"] eq by metis
  have 2: "validate_token lib (load_config ?env') self token
             = validate_token lib (load_config env) self token"
    using validate_token_token_issuer [where cfg = "load_config env" and lib = lib] eq by metis
  have t: "tenant_id self = env ''AZURE_TENANT_ID''"
    using EntraIDAuth_init_tenant [OF assms] by (simp add: load_config_def getenv_def Let_def)
  have 3: "\<exists>sk. jwt_decode lib token (Some (key sk)) (Some [''RS256''])
                    (Some (TOKEN_AUDIENCE (load_config env)))
                    (Some [''https://sts.windows.net/'' @ fmt (env ''AZURE_TENANT_ID'') @ ''/'',
                           ''https://login.microsoftonline.com/'' @ fmt (env ''AZURE_TENANT_ID'')
                             @ ''/v2.0''])
                    verified_options = Inr c"
    if "snd (validate_token lib (load_config env) self token) = Inr c" for c
    using validate_token_Inr [OF that] t by (auto simp: valid_issuers_def)
  from 1 2 3 show ?thesis by blast
qed

lemma foreign_env_config:
  "load_config (contoso_env(''TOKEN_ISSUER'' \<mapsto> ''https://issuer.example/''))
     = contoso_config\<lparr> TOKEN_ISSUER := ''https://issuer.example/'' \<rparr>"
  by (simp add: contoso_config_def load_config_def contoso_env_def getenv_def getenv_default_def
      fmt_def lower_def lower_char_def)

lemma contoso_other:
  "validate_token (library_of contoso) contoso_config contoso_auth ''other.good.sig'' =
     ([ResolveKey ''other.good.sig'', DecodeUnverified ''other.good.sig'',
       DecodeVerified ''other.good.sig''],
      Inl (HTTPException 401 (JStr ''Invalid token issuer'') None))"
  by (simp add: contoso_run contoso_config_eq)

lemma contoso_v2:
  "validate_token (library_of contoso) contoso_config contoso_auth ''v2.good.sig'' =
     ([ResolveKey ''v2.good.sig'', DecodeUnverified ''v2.good.sig'', DecodeVerified ''v2.good.sig''],
      Inr (token_claims ''https://login.microsoftonline.com/contoso/v2.0'' 2000))"
  by (simp add: contoso_run contoso_config_eq)

text \<open>Setting \<open>TOKEN_ISSUER\<close> in the example environment changes nothing.\<close>

theorem issuers_fixed_by_tenant_witness:
  "EntraIDAuth_init (load_config contoso_env) = Inr contoso_auth \<and>
   EntraIDAuth_init (load_config (contoso_env(''TOKEN_ISSUER'' \<mapsto> ''https://issuer.example/'')))
     = Inr contoso_auth \<and>
   validate_token (library_of contoso)
      (load_config (contoso_env(''TOKEN_ISSUER'' \<mapsto> ''https://issuer.example/'')))
      contoso_auth ''other.good.sig''
     = validate_token (library_of contoso) (load_config contoso_env) contoso_auth ''other.good.sig''"
proof -
  have a: "EntraIDAuth_init (load_config contoso_env) = Inr contoso_auth"
    using contoso_init by (simp add: contoso_config_def)
  from a issuers_fixed_by_tenant [OF a, of "Some ''https://issuer.example/''" "library_of contoso"
      "''other.good.sig''"]
  show ?thesis by blast
qed

text \<open>
  With \<open>TOKEN_ISSUER\<close> set to a foreign issuer, a well-signed token of exactly that
  issuer is still turned down for its issuer, and a token of the tenant's v1.0 issuer,
  which the setting does not name, is still accepted.
\<close>

theorem token_issuer_setting_counterexample:
  "TOKEN_ISSUER (load_config (contoso_env(''TOKEN_ISSUER'' \<mapsto> ''https://issuer.example/'')))
     = ''https://issuer.example/'' \<and>
   TOKEN_ISSUER (load_config contoso_env) = ''https://login.microsoftonline.com/contoso/v2.0'' \<and>
   EntraIDAuth_init (load_config (contoso_env(''TOKEN_ISSUER'' \<mapsto> ''https://issuer.example/'')))
     = Inr contoso_auth \<and>
   jwt_decode (library_of contoso) ''other.good.sig'' None None None None unverified_options
     = Inr (token_claims ''https://issuer.example/'' 2000) \<and>
   snd (validate_token (library_of contoso)
          (load_config (contoso_env(''TOKEN_ISSUER'' \<mapsto> ''https://issuer.example/'')))
          contoso_auth ''other.good.sig'')
     = Inl (HTTPException 401 (JStr ''Invalid token issuer'') None) \<and>
   snd (validate_token (library_of contoso)
          (load_config (contoso_env(''TOKEN_ISSUER'' \<mapsto> ''https://issuer.example/'')))
          contoso_auth ''v1.good.sig'')
     = Inr (token_claims ''https://sts.windows.net/contoso/'' 2000)"
proof -
  let ?env = "contoso_env(''TOKEN_ISSUER'' \<mapsto> ''https://issuer.example/'')"
  have cfg: "load_config ?env = contoso_config\<lparr> TOKEN_ISSUER := ''https://issuer.example/'' \<rparr>"
    by (rule foreign_env_config)
  have 1: "TOKEN_ISSUER (load_config ?env) = ''https://issuer.example/''"
    by (simp add: cfg)
  have 2: "TOKEN_ISSUER (load_config contoso_env) = ''https://login.microsoftonline.com/contoso/v2.0''"
    using contoso_config_eq by (simp add: contoso_config_def)
  have 3: "EntraIDAuth_init (load_config ?env) = Inr contoso_auth"
    by (simp only: cfg EntraIDAuth_init_token_issuer contoso_init)
  have 4: "jwt_decode (library_of contoso) ''other.good.sig'' None None None None unverified_options
             = Inr (token_claims ''https://issuer.example/'' 2000)"
    by (simp add: contoso_run)
  have 5: "snd (validate_token (library_of contoso) (load_config ?env) contoso_auth ''other.good.sig'')
             = Inl (HTTPException 401 (JStr ''Invalid token issuer'') None)"
    by (simp only: cfg validate_token_token_issuer contoso_other snd_conv)
  have 6: "snd (validate_token (library_of contoso) (load_config ?env) contoso_auth ''v1.good.sig'')
             = Inr (token_claims ''https://sts.windows.net/contoso/'' 2000)"
    by (simp only: cfg validate_token_token_issuer contoso_v1 snd_conv)
  from 1 2 3 4 5 6 show ?thesis by blast
qed

text \<open>Turning the issuer check on in the options of the verifying decode changes nothing.\<close>

lemma verified_options_iss: "verified_options(''verify_iss'' \<mapsto> True) = verified_options"
  by (rule map_upd_triv) (simp add: verified_options_def)

text \<open>
  Claim C4. Let the library check the issuer by membership. For every token whose
  signing key resolves, whose claims parse, that passes every other check of the
  verifying decode (the decode with the issuer check alone turned off returns the
  claims), and whose issuer claim is the v1.0 form or the v2.0 form of the tenant,
  \<open>validate_token\<close> succeeds and returns the decoded claims.
\<close>

theorem validate_token_accepts_both_issuers:
  assumes "issuer_checked_by_membership lib"
    and "jwks_client self = Some client"
    and "get_signing_key_from_jwt lib client token = Inr sk"
    and "jwt_decode lib token None None None None unverified_options = Inr u"
    and "jwt_decode lib token (Some (key sk)) (Some [''RS256'']) (Some (TOKEN_AUDIENCE cfg))
           (Some (valid_issuers self)) (verified_options(''verify_iss'' \<mapsto> False)) = Inr c"
    and "c ''iss'' = Some (SVal (''https://sts.windows.net/'' @ fmt (tenant_id self) @ ''/'')) \<or>
         c ''iss'' = Some (SVal (''https://login.microsoftonline.com/'' @ fmt (tenant_id self)
                                   @ ''/v2.0''))"
  shows "snd (validate_token lib cfg self token) = Inr c"
proof -
  obtain i where i: "c ''iss'' = Some (SVal i)" "i \<in> set (valid_issuers self)"
    using assms(6) by (auto simp: valid_issuers_def)
  have "jwt_decode lib token (Some (key sk)) (Some [''RS256'']) (Some (TOKEN_AUDIENCE cfg))
          (Some (valid_issuers self)) (verified_options(''verify_iss'' \<mapsto> True)) = Inr c"
    using assms(1) assms(5) i unfolding issuer_checked_by_membership_def by blast
  then have "jwt_decode lib token (Some (key sk)) (Some [''RS256'']) (Some (TOKEN_AUDIENCE cfg))
          (Some (valid_issuers self)) verified_options = Inr c"
    by (simp only: verified_options_iss)
  then show ?thesis
    using assms(2,3,4) by (simp add: validate_token_def)
qed

text \<open>The calls of the library instance on the good token of the v1.0 issuer.\<close>

lemma contoso_calls_v1:
  "get_signing_key_from_jwt (library_of contoso) client ''v1.good.sig'' = Inr (PyJWK ''key1'')"
  "jwt_decode (library_of contoso) ''v1.good.sig'' None None None None unverified_options
     = Inr (token_claims ''https://sts.windows.net/contoso/'' 2000)"
  "jwt_decode (library_of contoso) ''v1.good.sig'' (Some ''key1'') (Some [''RS256''])
     (Some ''api://app1'')
     (Some [''https://sts.windows.net/contoso/'', ''https://login.microsoftonline.com/contoso/v2.0''])
     (verified_options(''verify_iss'' \<mapsto> False))
     = Inr (token_claims ''https://sts.windows.net/contoso/'' 2000)"
  by (simp_all add: contoso_run)

text \<open>The good token of the v1.0 issuer is accepted with its claims.\<close>

theorem validate_token_accepts_both_issuers_witness:
  "issuer_checked_by_membership (library_of contoso) \<and>
   jwks_client contoso_auth =
     Some (PyJWKClient ''https://login.microsoftonline.com/contoso/discovery/v2.0/keys'') \<and>
   get_signing_key_from_jwt (library_of contoso)
     (PyJWKClient ''https://login.microsoftonline.com/contoso/discovery/v2.0/keys'')
     ''v1.good.sig'' = Inr (PyJWK ''key1'') \<and>
   jwt_decode (library_of contoso) ''v1.good.sig'' (Some (key (PyJWK ''key1''))) (Some [''RS256''])
     (Some (TOKEN_AUDIENCE contoso_config)) (Some (valid_issuers contoso_auth))
     (verified_options(''verify_iss'' \<mapsto> False))
     = Inr (token_claims ''https://sts.windows.net/contoso/'' 2000) \<and>
   token_claims ''https://sts.windows.net/contoso/'' 2000 ''iss''
     = Some (SVal (''https://sts.windows.net/'' @ fmt (tenant_id contoso_auth) @ ''/'')) \<and>
   snd (validate_token (library_of contoso) contoso_config contoso_auth ''v1.good.sig'')
     = Inr (token_claims ''https://sts.windows.net/contoso/'' 2000)"
proof -
  let ?client = "PyJWKClient ''https://login.microsoftonline.com/contoso/discovery/v2.0/keys''"
  let ?c = "token_claims ''https://sts.windows.net/contoso/'' 2000"
  have a: "issuer_checked_by_membership (library_of contoso)"
    by (rule library_of_membership)
  have b: "jwks_client contoso_auth = Some ?client"
    by (simp add: contoso_auth_fields)
  have c: "get_signing_key_from_jwt (library_of contoso) ?client ''v1.good.sig''
             = Inr (PyJWK ''key1'')"
    by (rule contoso_calls_v1)
  have d: "jwt_decode (library_of contoso) ''v1.good.sig'' None None None None unverified_options
             = Inr ?c"
    by (rule contoso_calls_v1)
  have e: "jwt_decode (library_of contoso) ''v1.good.sig'' (Some (key (PyJWK ''key1'')))
             (Some [''RS256'']) (Some (TOKEN_AUDIENCE contoso_config))
             (Some (valid_issuers contoso_auth)) (verified_options(''verify_iss'' \<mapsto> False))
             = Inr ?c"
    by (simp add: contoso_calls_v1 contoso_config_fields contoso_auth_fields)
  have f: "?c ''iss'' = Some (SVal (''https://sts.windows.net/'' @ fmt (tenant_id contoso_auth) @ ''/''))"
    by (simp add: token_claims_at contoso_auth_fields fmt_def)
  have g: "?c ''iss'' = Some (SVal (''https://sts.windows.net/'' @ fmt (tenant_id contoso_auth) @ ''/'')) \<or>
           ?c ''iss'' = Some (SVal (''https://login.microsoftonline.com/''
                                      @ fmt (tenant_id contoso_auth) @ ''/v2.0''))"
    using f by blast
  from a b c e f validate_token_accepts_both_issuers [OF a b c d e g] show ?thesis by blast
qed















section \<open>The middleware\<close>

text \<open>The allow-list test, the example middleware and the example settings.\<close>

lemma excluded_iff:
  "list_ex (\<lambda>p. startswith (url_path request) p) (excluded_paths self) = excluded self request"
  by (simp add: excluded_def list_ex_iff)

lemma main_middleware_paths: "excluded_paths main_middleware = [''/health'', ''/docs'']"
  by (simp add: main_middleware_def AuthMiddleware_init_def)

lemma disabled_config_eq:
  "disabled_config = contoso_config\<lparr> ENABLE_AUTH := False \<rparr>"
  by (simp add: disabled_config_def contoso_config_def load_config_def contoso_env_def getenv_def
      getenv_default_def fmt_def lower_def lower_char_def)

lemma disabled_init: "EntraIDAuth_init disabled_config = Inr disabled_auth"
  by (simp add: disabled_config_eq contoso_config_eq EntraIDAuth_init_def fmt_def disabled_auth_def)

lemma excluded_health:
  "excluded main_middleware \<lparr> url_path = ''/health'', headers = hs, state = st \<rparr>"
  by (simp add: excluded_def main_middleware_paths startswith_def)

lemma not_excluded_me:
  "\<not> excluded main_middleware \<lparr> url_path = ''/me'', headers = hs, state = st \<rparr>"
  by (simp add: excluded_def main_middleware_paths startswith_def)

lemma headers_get_authorization:
  "headers_get [(''authorization'', v)] ''Authorization'' = Some v"
  "headers_get [] ''Authorization'' = None"
  by (simp_all add: headers_get_def lower_def lower_char_def)

text \<open>
  Claim C6. For every request whose path starts with one of the prefixes of the
  allow-list, the middleware returns the response of \<open>call_next\<close> on the request as it
  came, and its log is empty: neither the validator nor the library was asked anything,
  whatever the headers are and whether authentication is enabled or not.
\<close>

theorem call_excluded_forwards:
  assumes "excluded self request"
  shows "call lib cfg auth_handler self request call_next = ([], Inr (call_next request))"
  using assms by (simp add: call_def excluded_iff)

text \<open>A request to \<open>/health\<close> without any header is forwarded.\<close>

theorem call_excluded_forwards_witness:
  "excluded main_middleware \<lparr> url_path = ''/health'', headers = [], state = \<lparr> user = None \<rparr> \<rparr> \<and>
   headers_get (headers \<lparr> url_path = ''/health'', headers = [], state = \<lparr> user = None \<rparr> \<rparr>)
     ''Authorization'' = None \<and>
   call (library_of contoso) contoso_config contoso_auth main_middleware
     \<lparr> url_path = ''/health'', headers = [], state = \<lparr> user = None \<rparr> \<rparr> url_path
     = ([], Inr ''/health'')"
proof -
  let ?r = "\<lparr> url_path = ''/health'', headers = [], state = \<lparr> user = None \<rparr> \<rparr>"
  have a: "excluded main_middleware ?r" by (rule excluded_health)
  have b: "headers_get (headers ?r) ''Authorization'' = None"
    by (simp add: headers_get_authorization)
  from call_excluded_forwards [OF a, of "library_of contoso" contoso_config contoso_auth url_path]
  have "call (library_of contoso) contoso_config contoso_auth main_middleware ?r url_path
          = ([], Inr ''/health'')"
    by simp
  with a b show ?thesis by blast
qed




text \<open>
  Claim C8, as the code has it. While authentication is disabled the middleware forwards
  every request as it came, attaching nothing to its state, and its log is empty: the
  validator is never called. The fixed placeholder identity is not attached by the
  middleware; \<open>get_current_user\<close> returns it, for every request, when a handler asks.
\<close>

theorem call_auth_disabled_forwards:
  assumes "\<not> ENABLE_AUTH cfg"
  shows "call lib cfg auth_handler self request call_next = ([], Inr (call_next request)) \<and>
         get_current_user cfg request'
           = Inr [''sub'' \<mapsto> SVal ''development-user'', ''name'' \<mapsto> SVal ''Development User'']"
  using assms by (simp add: call_def get_current_user_def)

text \<open>The example settings with authentication switched off.\<close>

lemma disabled_config_fields: "\<not> ENABLE_AUTH disabled_config"
  by (simp add: disabled_config_eq)

text \<open>
  With authentication off, a handler that asks \<open>get_current_user\<close> behind the
  middleware gets the placeholder identity.
\<close>

theorem call_auth_disabled_forwards_witness:
  "\<not> ENABLE_AUTH disabled_config \<and>
   call (library_of contoso) disabled_config disabled_auth main_middleware
     \<lparr> url_path = ''/me'', headers = [], state = \<lparr> user = None \<rparr> \<rparr> (get_current_user disabled_config)
     = ([], Inr (Inr [''sub'' \<mapsto> SVal ''development-user'', ''name'' \<mapsto> SVal ''Development User'']))"
proof -
  let ?r = "\<lparr> url_path = ''/me'', headers = [], state = \<lparr> user = None \<rparr> \<rparr>"
  have a: "\<not> ENABLE_AUTH disabled_config" by (rule disabled_config_fields)
  from call_auth_disabled_forwards [OF a, of "library_of contoso" disabled_auth main_middleware ?r
      "get_current_user disabled_config" ?r]
  have "call (library_of contoso) disabled_config disabled_auth main_middleware ?r
          (get_current_user disabled_config)
     = ([], Inr (Inr [''sub'' \<mapsto> SVal ''development-user'', ''name'' \<mapsto> SVal ''Development User'']))"
    by simp
  with a show ?thesis by blast
qed

text \<open>
  With authentication off, the request that reaches the handler carries no claims: the
  \<open>user\<close> attribute of its state is still unset, not the placeholder identity.
\<close>

theorem call_auth_disabled_counterexample:
  "\<not> ENABLE_AUTH disabled_config \<and>
   EntraIDAuth_init disabled_config = Inr disabled_auth \<and>
   call (library_of contoso) disabled_config disabled_auth main_middleware
     \<lparr> url_path = ''/me'', headers = [], state = \<lparr> user = None \<rparr> \<rparr> (\<lambda>r. user (state r))
     = ([], Inr None)"
  by (simp add: disabled_config_fields disabled_init call_def)

text \<open>
  With a bearer header on a protected path, the middleware is the validator on the text
  between the first space of the header and the next.
\<close>

lemma call_bearer:
  assumes "ENABLE_AUTH cfg" and "\<not> excluded self request"
    and "headers_get (headers request) ''Authorization'' = Some h"
    and "startswith h ''Bearer ''"
  shows "call lib cfg auth_handler self request call_next =
     (let token = takeWhile (\<lambda>c. c \<noteq> CHR '' '') (drop 7 h)
      in case validate_token lib cfg auth_handler token of
           (log, Inr decoded_token) \<Rightarrow>
             (ValidateToken token # log,
              Inr (call_next (request\<lparr> state := (state request)\<lparr> user := Some decoded_token \<rparr> \<rparr>)))
         | (log, Inl e) \<Rightarrow>
             (ValidateToken token # log,
              Inl (case e of
                     HTTPException _ _ _ \<Rightarrow> e
                   | _ \<Rightarrow> HTTPException 401 (JStr ''Authentication failed'') None)))"
proof -
  obtain rest where sp: "split (CHR '' '') h = ''Bearer'' # takeWhile (\<lambda>c. c \<noteq> CHR '' '') (drop 7 h) # rest"
    using split_bearer_token [OF assms(4)] by blast
  have ne: "h \<noteq> []" using assms(4) by (auto simp: startswith_def)
  show ?thesis
    using assms ne by (simp add: call_def excluded_iff sp Let_def)
qed

text \<open>
  What the validator raises, and that the middleware never answers a bearer header with
  the exception it keeps for a missing one.
\<close>

lemma on_exception_form:
  "(\<exists>d. on_exception b x = HTTPException 401 (JStr d) None) \<or> on_exception b x = UnboundLocalError"
  by (cases x) (simp_all add: on_exception_def)

lemma validate_token_Inl_form:
  assumes "snd (validate_token lib cfg self token) = Inl e"
  shows "(\<exists>d. e = HTTPException 401 (JStr d) None) \<or> e = UnboundLocalError"
proof -
  obtain b x where "e = on_exception b x"
    using assms by (auto simp: validate_token_def split: option.splits sum.splits)
  then show ?thesis using on_exception_form [of b x] by simp
qed

lemma call_bearer_not_unauthorized:
  assumes "ENABLE_AUTH cfg" and "\<not> excluded self request"
    and "headers_get (headers request) ''Authorization'' = Some h"
    and "startswith h ''Bearer ''"
  shows "snd (call lib cfg auth_handler self request call_next) \<noteq> Inl (unauthorized cfg)"
proof -
  let ?t = "takeWhile (\<lambda>c. c \<noteq> CHR '' '') (drop 7 h)"
  obtain l res where v: "validate_token lib cfg auth_handler ?t = (l, res)"
    by (cases "validate_token lib cfg auth_handler ?t")
  show ?thesis
  proof (cases res)
    case (Inl e)
    then have "snd (validate_token lib cfg auth_handler ?t) = Inl e" using v by simp
    then have "(\<exists>d. e = HTTPException 401 (JStr d) None) \<or> e = UnboundLocalError"
      by (rule validate_token_Inl_form)
    then show ?thesis
      unfolding call_bearer [OF assms] using v Inl
      by (auto simp: Let_def unauthorized_def)
  next
    case (Inr d)
    then show ?thesis
      unfolding call_bearer [OF assms] using v by (simp add: Let_def)
  qed
qed

text \<open>
  Claim C9. On a protected path with a header that starts with \<open>Bearer \<close>, the string
  handed to \<open>validate_token\<close> is the second piece of the header split at single spaces,
  that is the text after \<open>Bearer \<close> up to the next space: anything after a second
  space is dropped, and when a second space follows at once the string is empty. The
  validator is called on that string, and whatever it answers, the request is not
  turned down as one without a credential.
\<close>

theorem call_token_is_second_segment:
  assumes "ENABLE_AUTH cfg" and "\<not> excluded self request"
    and "headers_get (headers request) ''Authorization'' = Some h"
    and "startswith h ''Bearer ''"
  shows "(let token = split (CHR '' '') h ! 1
          in token = takeWhile (\<lambda>c. c \<noteq> CHR '' '') (drop 7 h) \<and>
             fst (call lib cfg auth_handler self request call_next)
               = ValidateToken token # fst (validate_token lib cfg auth_handler token) \<and>
             snd (call lib cfg auth_handler self request call_next) \<noteq> Inl (unauthorized cfg))"
proof -
  obtain rest where sp: "split (CHR '' '') h = ''Bearer'' # takeWhile (\<lambda>c. c \<noteq> CHR '' '') (drop 7 h) # rest"
    using split_bearer_token [OF assms(4)] by blast
  have "fst (call lib cfg auth_handler self request call_next)
          = ValidateToken (takeWhile (\<lambda>c. c \<noteq> CHR '' '') (drop 7 h))
              # fst (validate_token lib cfg auth_handler (takeWhile (\<lambda>c. c \<noteq> CHR '' '') (drop 7 h)))"
    unfolding call_bearer [OF assms]
    by (simp add: Let_def split: prod.splits sum.splits)
  then show ?thesis
    using call_bearer_not_unauthorized [OF assms, of lib auth_handler call_next]
    by (simp add: sp Let_def)
qed

text \<open>Two headers split at spaces.\<close>

lemma split_examples:
  "split (CHR '' '') ''Bearer  x'' = [''Bearer'', [], ''x'']"
  "split (CHR '' '') ''Bearer v1.good.sig tail'' = [''Bearer'', ''v1.good.sig'', ''tail'']"
  by simp_all

text \<open>
  The header \<open>Bearer  x\<close> (two spaces) hands the empty string to the validator, which
  asks the library about it and turns it down as an invalid token; a good token followed by a space and more text is cut at
  the space and validated as the good token.
\<close>

theorem call_token_is_second_segment_witness:
  "ENABLE_AUTH contoso_config \<and>
   \<not> excluded main_middleware
       \<lparr> url_path = ''/me'', headers = [(''authorization'', ''Bearer  x'')], state = \<lparr> user = None \<rparr> \<rparr> \<and>
   headers_get (headers \<lparr> url_path = ''/me'', headers = [(''authorization'', ''Bearer  x'')],
                          state = \<lparr> user = None \<rparr> \<rparr>) ''Authorization'' = Some ''Bearer  x'' \<and>
   startswith ''Bearer  x'' ''Bearer '' \<and>
   split (CHR '' '') ''Bearer  x'' ! 1 = [] \<and>
   fst (call (library_of contoso) contoso_config contoso_auth main_middleware
     \<lparr> url_path = ''/me'', headers = [(''authorization'', ''Bearer  x'')], state = \<lparr> user = None \<rparr> \<rparr>
     url_path) = [ValidateToken [], ResolveKey []] \<and>
   snd (call (library_of contoso) contoso_config contoso_auth main_middleware
     \<lparr> url_path = ''/me'', headers = [(''authorization'', ''Bearer  x'')], state = \<lparr> user = None \<rparr> \<rparr>
     url_path) = Inl (HTTPException 401 (JStr ''Invalid token: Not enough segments'') None) \<and>
   startswith ''Bearer v1.good.sig tail'' ''Bearer '' \<and>
   fst (call (library_of contoso) contoso_config contoso_auth main_middleware
     \<lparr> url_path = ''/me'', headers = [(''authorization'', ''Bearer v1.good.sig tail'')],
       state = \<lparr> user = None \<rparr> \<rparr> url_path)
     = [ValidateToken ''v1.good.sig'', ResolveKey ''v1.good.sig'', DecodeUnverified ''v1.good.sig'',
        DecodeVerified ''v1.good.sig'']"
proof -
  let ?r = "\<lparr> url_path = ''/me'', headers = [(''authorization'', ''Bearer  x'')],
               state = \<lparr> user = None \<rparr> \<rparr>"
  let ?r' = "\<lparr> url_path = ''/me'', headers = [(''authorization'', ''Bearer v1.good.sig tail'')],
               state = \<lparr> user = None \<rparr> \<rparr>"
  have a: "ENABLE_AUTH contoso_config" by (rule contoso_config_fields)
  have b: "\<not> excluded main_middleware ?r" by (rule not_excluded_me)
  have c: "headers_get (headers ?r) ''Authorization'' = Some ''Bearer  x''"
    by (simp add: headers_get_authorization)
  have d: "startswith ''Bearer  x'' ''Bearer ''" by (simp add: startswith_def)
  have b': "\<not> excluded main_middleware ?r'" by (rule not_excluded_me)
  have c': "headers_get (headers ?r') ''Authorization'' = Some ''Bearer v1.good.sig tail''"
    by (simp add: headers_get_authorization)
  have d': "startswith ''Bearer v1.good.sig tail'' ''Bearer ''" by (simp add: startswith_def)
  have e: "split (CHR '' '') ''Bearer  x'' ! 1 = []" by (simp add: split_examples)
  from call_token_is_second_segment [OF a b c d, of "library_of contoso" contoso_auth url_path]
  have f: "fst (call (library_of contoso) contoso_config contoso_auth main_middleware ?r url_path)
             = [ValidateToken [], ResolveKey []]"
    by (simp add: split_examples contoso_empty Let_def)
  from call_token_is_second_segment [OF a b' c' d', of "library_of contoso" contoso_auth url_path]
  have g: "fst (call (library_of contoso) contoso_config contoso_auth main_middleware ?r' url_path)
             = [ValidateToken ''v1.good.sig'', ResolveKey ''v1.good.sig'',
                DecodeUnverified ''v1.good.sig'', DecodeVerified ''v1.good.sig'']"
    by (simp add: split_examples contoso_v1 Let_def)
  have h: "snd (call (library_of contoso) contoso_config contoso_auth main_middleware ?r url_path)
             = Inl (HTTPException 401 (JStr ''Invalid token: Not enough segments'') None)"
    unfolding call_bearer [OF a b c d] by (simp add: contoso_empty Let_def)
  from a b c d e f h d' g show ?thesis by blast
qed

section \<open>get\_current\_user behind the middleware\<close>

text \<open>
  With authentication enabled \<open>get_current_user\<close> reads the \<open>user\<close> attribute and
  nothing else, and the middleware sets that attribute only to what the validator
  returned.
\<close>

lemma get_current_user_enabled:
  assumes "ENABLE_AUTH cfg"
  shows "get_current_user cfg r =
     (case user (state r) of
        None \<Rightarrow> Inl (HTTPException 401 (JStr ''User not authenticated'') None)
      | Some c \<Rightarrow> Inr c)"
  using assms by (simp add: get_current_user_def)

lemma call_forwarded_user:
  assumes "ENABLE_AUTH cfg"
    and "user (state request) = None"
    and "call lib cfg auth_handler self request (\<lambda>r. r) = (log, Inr request')"
    and "user (state request') = Some c"
  shows "\<exists>token. log = ValidateToken token # fst (validate_token lib cfg auth_handler token) \<and>
           snd (validate_token lib cfg auth_handler token) = Inr c"
proof (cases "excluded self request")
  case True
  then have "request' = request"
    using assms(3) by (simp add: call_def excluded_iff)
  then show ?thesis using assms(2,4) by simp
next
  case False
  show ?thesis
  proof (cases "headers_get (headers request) ''Authorization''")
    case None
    then show ?thesis
      using assms(1,3) False by (simp add: call_def excluded_iff)
  next
    case (Some h)
    show ?thesis
    proof (cases "startswith h ''Bearer ''")
      case no: False
      then show ?thesis
        using assms(1,3) False Some by (simp add: call_def excluded_iff)
    next
      case True
      let ?t = "takeWhile (\<lambda>c. c \<noteq> CHR '' '') (drop 7 h)"
      obtain l res where v: "validate_token lib cfg auth_handler ?t = (l, res)"
        by (cases "validate_token lib cfg auth_handler ?t")
      show ?thesis
      proof (cases res)
        case (Inl e)
        then show ?thesis
          using assms(3) call_bearer [OF assms(1) False Some True, of lib auth_handler "\<lambda>r. r"] v
          by (simp add: Let_def)
      next
        case (Inr d)
        then have "log = ValidateToken ?t # l"
          and "request' = request\<lparr> state := (state request)\<lparr> user := Some d \<rparr> \<rparr>"
          using assms(3) call_bearer [OF assms(1) False Some True, of lib auth_handler "\<lambda>r. r"] v
          by (simp_all add: Let_def)
        then show ?thesis using assms(4) v Inr by auto
      qed
    qed
  qed
qed

text \<open>
  Claim C10. Let authentication be enabled. \<open>get_current_user\<close> returns a claim
  mapping exactly when the state of the request holds it as \<open>user\<close>, and raises a 401
  for every request whose state holds none. For a request that arrives without that
  attribute and that the middleware forwards, the claims a handler then gets from
  \<open>get_current_user\<close> are those a call of \<open>validate_token\<close> by the middleware, on
  this request's token, returned.
\<close>

theorem get_current_user_only_validated:
  assumes "ENABLE_AUTH cfg"
  shows "(get_current_user cfg r = Inr c \<longleftrightarrow> user (state r) = Some c) \<and>
         (user (state r) = None \<longrightarrow>
            get_current_user cfg r = Inl (HTTPException 401 (JStr ''User not authenticated'') None)) \<and>
         (user (state request) = None \<and>
          call lib cfg auth_handler self request (\<lambda>r. r) = (log, Inr request') \<and>
          get_current_user cfg request' = Inr c' \<longrightarrow>
            (\<exists>token. log = ValidateToken token # fst (validate_token lib cfg auth_handler token) \<and>
                     snd (validate_token lib cfg auth_handler token) = Inr c'))"
proof -
  have 1: "get_current_user cfg r = Inr c \<longleftrightarrow> user (state r) = Some c"
    by (simp add: get_current_user_enabled [OF assms] split: option.splits)
  have 2: "user (state r) = None \<longrightarrow>
            get_current_user cfg r = Inl (HTTPException 401 (JStr ''User not authenticated'') None)"
    by (simp add: get_current_user_enabled [OF assms])
  have 3: "\<exists>token. log = ValidateToken token # fst (validate_token lib cfg auth_handler token) \<and>
                     snd (validate_token lib cfg auth_handler token) = Inr c'"
    if "user (state request) = None"
      and "call lib cfg auth_handler self request (\<lambda>r. r) = (log, Inr request')"
      and "get_current_user cfg request' = Inr c'"
  proof -
    have "user (state request') = Some c'"
      using that(3) by (simp add: get_current_user_enabled [OF assms] split: option.splits)
    then show ?thesis using call_forwarded_user [OF assms that(1) that(2)] by blast
  qed
  from 1 2 3 show ?thesis by blast
qed


text \<open>The middleware on a request to \<open>/me\<close> with the good token of the v1.0 issuer.\<close>

lemma contoso_call_v1:
  "call (library_of contoso) contoso_config contoso_auth main_middleware
     \<lparr> url_path = ''/me'', headers = [(''authorization'', ''Bearer v1.good.sig'')],
       state = \<lparr> user = None \<rparr> \<rparr> (\<lambda>r. r)
     = ([ValidateToken ''v1.good.sig'', ResolveKey ''v1.good.sig'', DecodeUnverified ''v1.good.sig'',
         DecodeVerified ''v1.good.sig''],
        Inr \<lparr> url_path = ''/me'', headers = [(''authorization'', ''Bearer v1.good.sig'')],
              state = \<lparr> user = Some (token_claims ''https://sts.windows.net/contoso/'' 2000) \<rparr> \<rparr>)"
proof -
  let ?r = "\<lparr> url_path = ''/me'', headers = [(''authorization'', ''Bearer v1.good.sig'')],
               state = \<lparr> user = None \<rparr> \<rparr>"
  have a: "ENABLE_AUTH contoso_config" by (rule contoso_config_fields)
  have b: "\<not> excluded main_middleware ?r" by (rule not_excluded_me)
  have c: "headers_get (headers ?r) ''Authorization'' = Some ''Bearer v1.good.sig''"
    by (simp add: headers_get_authorization)
  have d: "startswith ''Bearer v1.good.sig'' ''Bearer ''" by (simp add: startswith_def)
  show ?thesis
    unfolding call_bearer [OF a b c d] by (simp add: contoso_v1 Let_def)
qed

text \<open>
  The request as it arrives has no user and gets a 401; as forwarded it holds the claims
  of the validated token.
\<close>

theorem get_current_user_only_validated_witness:
  "ENABLE_AUTH contoso_config \<and>
   get_current_user contoso_config
     \<lparr> url_path = ''/me'', headers = [(''authorization'', ''Bearer v1.good.sig'')],
       state = \<lparr> user = None \<rparr> \<rparr>
     = Inl (HTTPException 401 (JStr ''User not authenticated'') None) \<and>
   get_current_user contoso_config
     \<lparr> url_path = ''/me'', headers = [(''authorization'', ''Bearer v1.good.sig'')],
       state = \<lparr> user = Some (token_claims ''https://sts.windows.net/contoso/'' 2000) \<rparr> \<rparr>
     = Inr (token_claims ''https://sts.windows.net/contoso/'' 2000) \<and>
   (\<exists>token.
      [ValidateToken ''v1.good.sig'', ResolveKey ''v1.good.sig'', DecodeUnverified ''v1.good.sig'',
       DecodeVerified ''v1.good.sig'']
        = ValidateToken token
            # fst (validate_token (library_of contoso) contoso_config contoso_auth token) \<and>
      snd (validate_token (library_of contoso) contoso_config contoso_auth token)
        = Inr (token_claims ''https://sts.windows.net/contoso/'' 2000))"
proof -
  let ?r = "\<lparr> url_path = ''/me'', headers = [(''authorization'', ''Bearer v1.good.sig'')],
               state = \<lparr> user = None \<rparr> \<rparr>"
  let ?c = "token_claims ''https://sts.windows.net/contoso/'' 2000"
  let ?r' = "\<lparr> url_path = ''/me'', headers = [(''authorization'', ''Bearer v1.good.sig'')],
                state = \<lparr> user = Some ?c \<rparr> \<rparr>"
  let ?log = "[ValidateToken ''v1.good.sig'', ResolveKey ''v1.good.sig'',
               DecodeUnverified ''v1.good.sig'', DecodeVerified ''v1.good.sig'']"
  have a: "ENABLE_AUTH contoso_config" by (rule contoso_config_fields)
  note t = get_current_user_only_validated [OF a, of _ _ ?r "library_of contoso" contoso_auth
      main_middleware ?log ?r' ?c]
  have 1: "get_current_user contoso_config ?r
             = Inl (HTTPException 401 (JStr ''User not authenticated'') None)"
    using t [of ?r ?c] by simp
  have 2: "get_current_user contoso_config ?r' = Inr ?c"
    using t [of ?r' ?c] by simp
  have 3: "\<exists>token. ?log = ValidateToken token
            # fst (validate_token (library_of contoso) contoso_config contoso_auth token) \<and>
      snd (validate_token (library_of contoso) contoso_config contoso_auth token) = Inr ?c"
    using t [of ?r ?c] contoso_call_v1 2 by simp
  from a 1 2 3 show ?thesis by blast
qed

end
